theory Spec2Isabelle
  imports Complex_Main
begin

section \<open>Numbers and errors\<close>

text \<open>
  The notebook computes in NumPy double precision.  Rounding is not modelled: a finite
  number is a real, and arithmetic on finite numbers is exact.  The special values that
  decide results in the notebook are kept: not-a-number and the two infinities, with the
  IEEE rules for sums, products and quotients (\<open>inf - inf\<close>, \<open>0 * inf\<close>, \<open>0 / 0\<close> and
  \<open>inf / inf\<close> are not-a-number, \<open>x / 0\<close> is an infinity for \<open>x \<noteq> 0\<close>).  Signed
  zeros are not distinguished.
\<close>

datatype npfloat = Fin real | PInf | NInf | NaN

text \<open>
  The Python exceptions that the modelled code can run into.  No statement of the notebook
  raises an exception of its own; \<open>UnsupportedFormat\<close> stands for the explicit
  unsupported-format error that the specification asks of the spatial reducer, and no
  function below ever returns it.
\<close>

datatype error = ValueError | IndexError | UnboundLocalError string | UnsupportedFormat

definition then_do :: "error + 'a \<Rightarrow> ('a \<Rightarrow> error + 'b) \<Rightarrow> error + 'b" where
  "then_do r f = (case r of Inl e \<Rightarrow> Inl e | Inr v \<Rightarrow> f v)"

fun np_add :: "npfloat \<Rightarrow> npfloat \<Rightarrow> npfloat" where
  "np_add NaN _ = NaN"
| "np_add _ NaN = NaN"
| "np_add (Fin a) (Fin b) = Fin (a + b)"
| "np_add PInf NInf = NaN"
| "np_add NInf PInf = NaN"
| "np_add PInf _ = PInf"
| "np_add _ PInf = PInf"
| "np_add NInf _ = NInf"
| "np_add _ NInf = NInf"

fun np_mul :: "npfloat \<Rightarrow> npfloat \<Rightarrow> npfloat" where
  "np_mul NaN _ = NaN"
| "np_mul _ NaN = NaN"
| "np_mul (Fin a) (Fin b) = Fin (a * b)"
| "np_mul (Fin a) PInf = (if a = 0 then NaN else if 0 < a then PInf else NInf)"
| "np_mul (Fin a) NInf = (if a = 0 then NaN else if 0 < a then NInf else PInf)"
| "np_mul PInf (Fin b) = (if b = 0 then NaN else if 0 < b then PInf else NInf)"
| "np_mul NInf (Fin b) = (if b = 0 then NaN else if 0 < b then NInf else PInf)"
| "np_mul PInf PInf = PInf"
| "np_mul NInf NInf = PInf"
| "np_mul PInf NInf = NInf"
| "np_mul NInf PInf = NInf"

fun np_div :: "npfloat \<Rightarrow> npfloat \<Rightarrow> npfloat" where
  "np_div NaN _ = NaN"
| "np_div _ NaN = NaN"
| "np_div (Fin a) (Fin b) =
     (if b = 0 then (if a = 0 then NaN else if 0 < a then PInf else NInf) else Fin (a / b))"
| "np_div (Fin a) _ = Fin 0"
| "np_div PInf (Fin b) = (if 0 \<le> b then PInf else NInf)"
| "np_div NInf (Fin b) = (if 0 \<le> b then NInf else PInf)"
| "np_div _ _ = NaN"

fun np_log :: "npfloat \<Rightarrow> npfloat" where
  "np_log (Fin a) = (if 0 < a then Fin (ln a) else if a = 0 then NInf else NaN)"
| "np_log PInf = PInf"
| "np_log _ = NaN"

fun np_abs :: "npfloat \<Rightarrow> npfloat" where
  "np_abs (Fin a) = Fin \<bar>a\<bar>"
| "np_abs NaN = NaN"
| "np_abs _ = PInf"

fun np_sqrt :: "npfloat \<Rightarrow> npfloat" where
  "np_sqrt (Fin a) = (if 0 \<le> a then Fin (sqrt a) else NaN)"
| "np_sqrt PInf = PInf"
| "np_sqrt _ = NaN"

fun isnan :: "npfloat \<Rightarrow> bool" where
  "isnan NaN = True"
| "isnan _ = False"

fun isfinite :: "npfloat \<Rightarrow> bool" where
  "isfinite (Fin _) = True"
| "isfinite _ = False"

fun fin_val :: "npfloat \<Rightarrow> real" where
  "fin_val (Fin a) = a"
| "fin_val _ = 0"

text \<open>\<open>np.cos\<close> and \<open>np.deg2rad\<close>; the cosine of an infinity is not-a-number.\<close>

fun np_cos :: "npfloat \<Rightarrow> npfloat" where
  "np_cos (Fin a) = Fin (cos a)"
| "np_cos _ = NaN"

fun np_deg2rad :: "npfloat \<Rightarrow> npfloat" where
  "np_deg2rad (Fin a) = Fin (a * pi / 180)"
| "np_deg2rad v = v"

text \<open>
  \<open>np.sum\<close>, \<open>np.nanmean\<close>, \<open>np.std\<close> and \<open>np.nanstd\<close>.  \<open>nanmean\<close> and \<open>nanstd\<close> drop the
  not-a-number entries; on an empty or all-NaN list both return not-a-number (NumPy warns
  and does not raise).  \<open>nanstd\<close> of a list holding an infinity is not-a-number.
  \<open>mean\<close> and \<open>np_std\<close> are on finite numbers and are only ever applied to non-empty
  lists: every use below is behind a test that the list is not empty, or on a window of
  fixed positive length.
\<close>

definition np_sum :: "npfloat list \<Rightarrow> npfloat" where
  "np_sum xs = foldl np_add (Fin 0) xs"

definition nanmean :: "npfloat list \<Rightarrow> npfloat" where
  "nanmean xs =
     (let ys = filter (\<lambda>v. \<not> isnan v) xs
      in np_div (np_sum ys) (Fin (real (length ys))))"

definition mean :: "real list \<Rightarrow> real" where
  "mean xs = sum_list xs / real (length xs)"

definition np_std :: "real list \<Rightarrow> real" where
  "np_std xs = sqrt (mean (map (\<lambda>v. (v - mean xs)\<^sup>2) xs))"

definition nanstd :: "npfloat list \<Rightarrow> npfloat" where
  "nanstd xs =
     (let ys = filter (\<lambda>v. \<not> isnan v) xs
      in if ys = [] then NaN
         else if list_all isfinite ys then Fin (np_std (map fin_val ys))
         else NaN)"

definition nan_to_zero :: "npfloat \<Rightarrow> npfloat" where
  "nan_to_zero v = (if isnan v then Fin 0 else v)"

section \<open>Forcing loader: AOD to radiative forcing\<close>

text \<open>
  \<^verbatim>\<open>
  def get_forcing(saod):
      return np.multiply(-20.7, np.subtract(1, np.exp(np.multiply(-1, saod))))
  \<close>
  The function is applied to an array elementwise.  For this function the rounding of
  double precision matters (the result is the same for all large optical depths), so the
  computation on one element is written with its roundings: \<open>rnd\<close> is the rounding of the
  exact result of an arithmetic operation, and of the literal \<open>-20.7\<close>, to a machine
  number, and \<open>fexp\<close> is the exponential routine of the platform, which returns a machine
  number.  Both are parameters; \<open>get_forcing1\<close> is the computation in exact arithmetic,
  where nothing is rounded and the exponential is the real one.  Machine numbers are
  finite here: the optical depths are those for which no operation overflows, which
  includes all that are not negative.
\<close>

definition get_forcing_fl :: "(real \<Rightarrow> real) \<Rightarrow> (real \<Rightarrow> real) \<Rightarrow> real \<Rightarrow> real" where
  "get_forcing_fl rnd fexp saod = rnd (rnd (-20.7) * rnd (1 - fexp (rnd ((-1) * saod))))"

definition get_forcing1 :: "real \<Rightarrow> real" where
  "get_forcing1 saod = get_forcing_fl (\<lambda>v. v) exp saod"

definition get_forcing :: "real list \<Rightarrow> real list" where
  "get_forcing saod = map get_forcing1 saod"

section \<open>Variability metrics\<close>

text \<open>
  A temperature series is a list of values each of which is a finite number or missing
  (\<open>None\<close> is NumPy's not-a-number); infinite temperatures are not modelled.
  \<open>x[~np.isnan(x)]\<close> keeps the finite entries in order.
\<close>

fun nan_strip :: "real option list \<Rightarrow> real list" where
  "nan_strip [] = []"
| "nan_strip (None # xs) = nan_strip xs"
| "nan_strip (Some v # xs) = v # nan_strip xs"

text \<open>Centred sums of squares and of products, used by every least-squares fit below.\<close>

definition sxx :: "real list \<Rightarrow> real" where
  "sxx xs = sum_list (map (\<lambda>x. (x - mean xs)\<^sup>2) xs)"

definition sxy :: "real list \<Rightarrow> real list \<Rightarrow> real" where
  "sxy xs ys = sum_list (map (\<lambda>(x, y). (x - mean xs) * (y - mean ys)) (zip xs ys))"

text \<open>
  \<open>scipy.signal.detrend(w)\<close> subtracts the least-squares line fitted against the sample
  positions \<open>1/N, 2/N, \<dots>, 1\<close>.  \<open>compute_cox\<close> only ever passes windows of 55 points;
  for fewer than two points the fit is exact and the result is zero.
\<close>

definition signal_detrend :: "real list \<Rightarrow> real list" where
  "signal_detrend w =
     (let n = length w;
          ts = map (\<lambda>k. real (k + 1) / real n) [0..<n]
      in if n < 2 then map (\<lambda>_. 0) w
         else let slope = sxy ts w / sxx ts;
                  icpt = mean w - slope * mean ts
              in map (\<lambda>(t, y). y - (icpt + slope * t)) (zip ts w))"

text \<open>
  \<open>statsmodels.tsa.acf(y, nlags=1)\<close>: the autocovariances of the demeaned series at the
  lags \<open>0 \<dots> nlags\<close>, each divided by the autocovariance at lag 0 (not-a-number for a
  constant series, where that is \<open>0 / 0\<close>).
\<close>

definition acovf :: "real list \<Rightarrow> nat \<Rightarrow> real" where
  "acovf y k =
     (let d = map (\<lambda>v. v - mean y) y
      in sum_list (map (\<lambda>(a, b). a * b) (zip d (drop k d))) / real (length y))"

definition acf :: "real list \<Rightarrow> nat \<Rightarrow> npfloat list" where
  "acf y nlags = map (\<lambda>k. np_div (Fin (acovf y k)) (Fin (acovf y 0))) [0..<nlags + 1]"

text \<open>
  \<^verbatim>\<open>
  def compute_cox(x):
      x = x[~np.isnan(x)]
      psi_vals=[]
      for i in np.arange(0, len(x)-55):
          y = signal.detrend(x[i:i+55])
          auto_m1 = tsa.acf(y,nlags=1)
          auto_m1b = auto_m1[1]
          sigma_m1= np.std(y)
          log_m1= np.log(auto_m1b)
          log_m1b = np.abs(log_m1)
          sqrt_m1 = np.sqrt(log_m1b)
          psi = sigma_m1/sqrt_m1
          psi_vals.append(psi)
      return np.nanmean(psi_vals)
  \<close>
  \<open>psi\<close> is the body of the loop on one window, \<open>cox_windows\<close> the windows \<open>x[i:i+55]\<close>
  the loop visits.  \<open>np.arange(0, len(x)-55)\<close> is empty when \<open>len(x) \<le> 55\<close>, which the
  truncating subtraction of the naturals gives as well.
\<close>

definition psi :: "real list \<Rightarrow> npfloat" where
  "psi w =
     (let y = signal_detrend w;
          auto_m1 = acf y 1;
          auto_m1b = auto_m1 ! 1;
          sigma_m1 = Fin (np_std y);
          log_m1 = np_log auto_m1b;
          log_m1b = np_abs log_m1;
          sqrt_m1 = np_sqrt log_m1b
      in np_div sigma_m1 sqrt_m1)"

definition cox_windows :: "real list \<Rightarrow> real list list" where
  "cox_windows x = map (\<lambda>i. take 55 (drop i x)) [0..<length x - 55]"

definition compute_cox :: "real option list \<Rightarrow> npfloat" where
  "compute_cox x = nanmean (map psi (cox_windows (nan_strip x)))"

text \<open>
  \<open>scipy.stats.linregress(x, y)\<close>, of which the notebook uses the slope only: empty or
  unequal inputs and identical \<open>x\<close> values are a \<open>ValueError\<close>; the slope is the ratio of
  the mean centred product to the mean centred square, not-a-number for a single point.
\<close>

definition arange :: "nat \<Rightarrow> real list" where
  "arange n = map real [0..<n]"

definition linregress_slope :: "real list \<Rightarrow> real list \<Rightarrow> error + npfloat" where
  "linregress_slope x y =
     (if x = [] \<or> y = [] then Inl ValueError
      else if length x \<noteq> length y then Inl ValueError
      else if 1 < length x \<and> list_all (\<lambda>v. v = hd x) x then Inl ValueError
      else Inr (np_div (Fin (sxy x y / real (length x))) (Fin (sxx x / real (length x)))))"

text \<open>
  \<^verbatim>\<open>
  def compute_nijsse(x, length=10):
      x = np.array(x)
      mask = ~np.isnan(x)
      x = x[mask]
      slopes = []
      i = 0
      while i < len(x)-length:
          slope, intercept, r, p, se = linregress(np.arange(0,length), x[i:i+length])
          slopes.append(length*slope)
          i+=length
      return np.nanstd(slopes)
  \<close>
  The window length is a natural number.  The comparison \<open>i < len(x)-length\<close> is on
  Python integers, so it is written on \<open>int\<close>.  With \<open>length = 0\<close> the first iteration
  fails in \<open>linregress\<close>, so the loop ends for every input.
\<close>

function nijsse_loop :: "real list \<Rightarrow> nat \<Rightarrow> nat \<Rightarrow> npfloat list \<Rightarrow> error + npfloat list" where
  "nijsse_loop x L i slopes =
     (if int i < int (length x) - int L then
        (case linregress_slope (arange L) (take L (drop i x)) of
           Inl e \<Rightarrow> Inl e
         | Inr slope \<Rightarrow> nijsse_loop x L (i + L) (slopes @ [np_mul (Fin (real L)) slope]))
      else Inr slopes)"
  by pat_completeness auto
termination
  by (relation "measure (\<lambda>(x, L, i, slopes). length x - i)")
     (auto simp: linregress_slope_def arange_def split: if_splits)

definition compute_nijsse :: "real option list \<Rightarrow> nat \<Rightarrow> error + npfloat" where
  "compute_nijsse x L =
     (case nijsse_loop (nan_strip x) L 0 [] of
        Inl e \<Rightarrow> Inl e
      | Inr slopes \<Rightarrow> Inr (nanstd slopes))"

section \<open>Detrending engine\<close>

text \<open>
  \<open>sm.add_constant(X)\<close> on a one-dimensional array: with the default
  \<open>has_constant='skip'\<close> the array is returned as a single column, unchanged, when it
  already is a non-zero constant (\<open>np.ptp(x) == 0\<close> and all entries non-zero); otherwise
  a column of ones is put in front.  \<open>np.ptp\<close> fails on an empty array.  A design matrix
  is the list of its columns.
\<close>

record regression =
  params :: "real option list"
  resid :: "real option list"

definition add_constant :: "real list \<Rightarrow> error + real list list" where
  "add_constant X =
     (if X = [] then Inl ValueError
      else if list_all (\<lambda>v. v = hd X) X \<and> list_all (\<lambda>v. v \<noteq> 0) X then Inr [X]
      else Inr [replicate (length X) 1, X])"

text \<open>
  \<open>sm.OLS(y, X).fit()\<close>, of which the notebook reads \<open>params\<close> and \<open>resid\<close>.  Rows of
  \<open>X\<close> and entries of \<open>y\<close> must agree in number.  The fit is \<open>pinv(X) y\<close>: the usual
  least-squares line when the forcing column is not constant, and the solution of least
  norm when it is (a forcing of zeros behind the column of ones).  Missing values are not
  checked for (\<open>missing='none'\<close>), so one not-a-number in \<open>y\<close> makes every parameter and
  every residual not-a-number.  The forcing series come from files and from
  \<open>get_forcing\<close>; they are finite.  A design matrix has the one or two columns that
  \<open>add_constant\<close> returns; of two columns the first is the column of ones, which the
  formulas below have built in.
\<close>

definition OLS_fit :: "real option list \<Rightarrow> real list list \<Rightarrow> error + regression" where
  "OLS_fit y X =
     (if \<not> list_all (\<lambda>c. length c = length y) X then Inl ValueError
      else if \<not> list_all (\<lambda>v. v \<noteq> None) y then
        Inr \<lparr>params = map (\<lambda>_. None) X, resid = map (\<lambda>_. None) y\<rparr>
      else
        (let yv = map the y in
         case X of
           [x] \<Rightarrow>
             (let b = sum_list (map (\<lambda>(u, v). u * v) (zip x yv)) / sum_list (map (\<lambda>u. u * u) x)
              in Inr \<lparr>params = [Some b],
                      resid = map (\<lambda>(u, v). Some (v - u * b)) (zip x yv)\<rparr>)
         | [c, x] \<Rightarrow>
             (let slope = (if sxx x = 0 then hd x * mean yv / (1 + hd x * hd x)
                           else sxy x yv / sxx x);
                  icpt = (if sxx x = 0 then mean yv / (1 + hd x * hd x)
                          else mean yv - slope * mean x)
              in Inr \<lparr>params = [Some icpt, Some slope],
                      resid = map (\<lambda>(u, v). Some (v - (icpt + slope * u))) (zip x yv)\<rparr>)
         | _ \<Rightarrow> Inl ValueError))"

fun nan_add :: "real option \<Rightarrow> real option \<Rightarrow> real option" where
  "nan_add (Some a) (Some b) = Some (a + b)"
| "nan_add _ _ = None"

definition adjusted :: "regression \<Rightarrow> real option list" where
  "adjusted reg = map (\<lambda>r. nan_add r (params reg ! 0)) (resid reg)"

text \<open>
  The regression the driver performs in each of its branches, in the order of the source:
  \<^verbatim>\<open>
      X = sm.add_constant(X)
      reg = sm.OLS(y, X).fit()
      ... np.add(reg.resid, reg.params[0]) ...
  \<close>
\<close>

definition regress_out :: "real option list \<Rightarrow> real list \<Rightarrow> error + real option list" where
  "regress_out y forcing =
     then_do (add_constant forcing) (\<lambda>X.
     then_do (OLS_fit y X) (\<lambda>reg. Inr (adjusted reg)))"

text \<open>
  \<^verbatim>\<open>
  def remove_volcano(timeseries, temp_anomaly):
      X = temp_anomaly
      y = timeseries
      X = sm.add_constant(X)
      reg = sm.OLS(y, X).fit()
      return reg.resid.values
  \<close>
  The function returns the residuals alone, for a pandas series as input; the driver
  never calls it.
\<close>

definition remove_volcano :: "real option list \<Rightarrow> real list \<Rightarrow> error + real option list" where
  "remove_volcano timeseries temp_anomaly =
     then_do (add_constant temp_anomaly) (\<lambda>X.
     then_do (OLS_fit timeseries X) (\<lambda>reg. Inr (resid reg)))"

section \<open>Pipeline driver\<close>

text \<open>
  The table \<open>ecs.csv\<close> is a list of rows.  The lookup
  \<open>t[t['model name']==model_keys[i]]['ecs'].values[0]\<close> takes the first row with that
  name and fails with \<open>IndexError\<close> when there is none.
\<close>

record ecs_row =
  model_name :: string
  generation :: string
  ecs :: real

definition ecs_lookup :: "ecs_row list \<Rightarrow> string \<Rightarrow> error + real" where
  "ecs_lookup t k =
     (case filter (\<lambda>r. model_name r = k) t of
        [] \<Rightarrow> Inl IndexError
      | r # _ \<Rightarrow> Inr (ecs r))"

text \<open>
  The four forcing series are read from files; they are parameters of the driver.  The
  assignment of a forcing to each model is the list written out in the notebook.
\<close>

record forcing_data =
  evolv2k_forcing :: "real list"
  gao_2008_forcing :: "real list"
  crowley_2000_forcing :: "real list"
  crowley_2008_forcing :: "real list"

definition forcings :: "string list" where
  "forcings = [''gao'', ''gao'', ''crowley_08'', ''crowley_00'',
               ''evolv2k'', ''crowley_08'', ''gao'', ''evolv2k'',
               ''crowley_08'', ''gao'', ''evolv2k'', ''gao'',
               ''evolv2k'', ''evolv2k'', ''evolv2k'', ''crowley_08'',
               ''evolv2k'', ''evolv2k'']"

text \<open>The lists and the dictionary that the loop fills.\<close>

record driver_state =
  ecs_vals :: "real list"
  original_cox :: "npfloat list"
  rv_cox :: "npfloat list"
  original_nijsse :: "npfloat list"
  rv_nijsse :: "npfloat list"
  df_rv :: "string \<rightharpoonup> real option list"

definition init_state :: driver_state where
  "init_state = \<lparr>ecs_vals = [], original_cox = [], rv_cox = [], original_nijsse = [],
                  rv_nijsse = [], df_rv = Map.empty\<rparr>"

text \<open>
  In every branch the statements after the regression are
  \<^verbatim>\<open>
      ecs_vals.append(t[t['model name']==model_keys[i]]['ecs'].values[0])
      original_cox.append(compute_cox(ts))
      rv_cox.append(compute_cox(A))
      original_nijsse.append(compute_nijsse(ts))
      rv_nijsse.append(compute_nijsse(A))
      df_rv[model_keys[i]] = B
  \<close>
  with the same expression \<open>A\<close> in both adjusted metrics; \<open>record_model\<close> takes
  \<open>A\<close> as \<open>metric_arg\<close> and \<open>B\<close> as \<open>stored\<close>.
\<close>

definition record_model ::
  "ecs_row list \<Rightarrow> string \<Rightarrow> real option list \<Rightarrow> real option list \<Rightarrow> real option list \<Rightarrow>
   driver_state \<Rightarrow> error + driver_state" where
  "record_model t name ts metric_arg stored st =
     then_do (ecs_lookup t name) (\<lambda>e.
     then_do (compute_nijsse ts 10) (\<lambda>on.
     then_do (compute_nijsse metric_arg 10) (\<lambda>rn.
       Inr (st\<lparr>ecs_vals := ecs_vals st @ [e],
               original_cox := original_cox st @ [compute_cox ts],
               rv_cox := rv_cox st @ [compute_cox metric_arg],
               original_nijsse := original_nijsse st @ [on],
               rv_nijsse := rv_nijsse st @ [rn],
               df_rv := (df_rv st)(name \<mapsto> stored)\<rparr>))))"

text \<open>
  The branches for \<open>HadCM3\<close>, \<open>gao\<close>, \<open>crowley_08\<close> and \<open>evolv2k\<close> differ in the forcing
  only:
  \<^verbatim>\<open>
      y = ts_past1000                      # ts[:1001]
      ...
      rv_cox.append(compute_cox(np.append(np.add(reg.resid, reg.params[0]), ts_historical)))
      rv_nijsse.append(compute_nijsse(np.append(np.add(reg.resid, reg.params[0]), ts_historical)))
      df_rv[model_keys[i]] = np.append(np.add(reg.resid, reg.params[0]), ts_historical)
  \<close>
  The branch for \<open>crowley_00\<close> is
  \<^verbatim>\<open>
      y = ts[151:]
      ...
      rv_cox.append(compute_cox(np.add(reg.resid, reg.params[0])))
      rv_nijsse.append(compute_nijsse(np.add(reg.resid, reg.params[0])))
      df_rv[model_keys[i]] = np.append(ts[:151],np.add(reg.resid, reg.params[0]))
  \<close>
\<close>

definition past1000_branch ::
  "real list \<Rightarrow> ecs_row list \<Rightarrow> string \<Rightarrow> real option list \<Rightarrow> driver_state \<Rightarrow>
   error + driver_state" where
  "past1000_branch forcing t name ts st =
     (let ts_historical = drop 1001 ts;
          ts_past1000 = take 1001 ts
      in then_do (regress_out ts_past1000 forcing) (\<lambda>adj.
           record_model t name ts (adj @ ts_historical) (adj @ ts_historical) st))"

definition crowley_00_branch ::
  "real list \<Rightarrow> ecs_row list \<Rightarrow> string \<Rightarrow> real option list \<Rightarrow> driver_state \<Rightarrow>
   error + driver_state" where
  "crowley_00_branch forcing t name ts st =
     then_do (regress_out (drop 151 ts) forcing) (\<lambda>adj.
       record_model t name ts adj (take 151 ts @ adj) st)"

definition driver_step ::
  "forcing_data \<Rightarrow> ecs_row list \<Rightarrow> (string \<times> real option list) list \<Rightarrow> nat \<Rightarrow> driver_state \<Rightarrow>
   error + driver_state" where
  "driver_step F t df i st =
     (let name = fst (df ! i); ts = snd (df ! i) in
      if name = ''HadCM3'' then past1000_branch (crowley_2008_forcing F) t name ts st
      else if \<not> i < length forcings then Inl IndexError
      else if forcings ! i = ''gao'' then past1000_branch (gao_2008_forcing F) t name ts st
      else if forcings ! i = ''crowley_00'' then
        crowley_00_branch (crowley_2000_forcing F) t name ts st
      else if forcings ! i = ''crowley_08'' then
        past1000_branch (crowley_2008_forcing F) t name ts st
      else if forcings ! i = ''evolv2k'' then past1000_branch (evolv2k_forcing F) t name ts st
      else Inr st)"

fun driver_loop ::
  "forcing_data \<Rightarrow> ecs_row list \<Rightarrow> (string \<times> real option list) list \<Rightarrow> nat list \<Rightarrow>
   driver_state \<Rightarrow> error + driver_state" where
  "driver_loop F t df [] st = Inr st"
| "driver_loop F t df (i # is) st =
     then_do (driver_step F t df i st) (driver_loop F t df is)"

definition driver ::
  "forcing_data \<Rightarrow> ecs_row list \<Rightarrow> (string \<times> real option list) list \<Rightarrow> error + driver_state" where
  "driver F t df = driver_loop F t df [0..<length df] init_state"

text \<open>
  The summary table:
  \<^verbatim>\<open>
  df = {'model': model_keys, 'generation': t['generation'].values, 'cox': original_cox,
        'rv_cox': rv_cox, 'nijsse': original_nijsse, 'rv_nijsse': rv_nijsse, 'ecs': ecs_vals}
  pd.DataFrame(df).to_csv('data/ec_data.csv')
  \<close>
  \<open>pd.DataFrame\<close> fails when the columns differ in length and otherwise puts the
  \<open>k\<close>-th entries of all columns into row \<open>k\<close>.  The model columns of \<open>ts.csv\<close>
  (\<open>model_keys = df.keys()[2:]\<close>, all columns but the first two) are the list \<open>df\<close> of
  pairs of a name and a series, in file order; the loop runs over
  \<open>range(len(model_keys))\<close>.
\<close>

record summary_row =
  col_model :: string
  col_generation :: string
  col_cox :: npfloat
  col_rv_cox :: npfloat
  col_nijsse :: npfloat
  col_rv_nijsse :: npfloat
  col_ecs :: real

definition ec_data ::
  "ecs_row list \<Rightarrow> (string \<times> real option list) list \<Rightarrow> driver_state \<Rightarrow>
   error + summary_row list" where
  "ec_data t df st =
     (let n = length df in
      if length t = n \<and> length (original_cox st) = n \<and> length (rv_cox st) = n \<and>
         length (original_nijsse st) = n \<and> length (rv_nijsse st) = n \<and>
         length (ecs_vals st) = n
      then Inr (map (\<lambda>k. \<lparr>col_model = fst (df ! k),
                           col_generation = generation (t ! k),
                           col_cox = original_cox st ! k,
                           col_rv_cox = rv_cox st ! k,
                           col_nijsse = original_nijsse st ! k,
                           col_rv_nijsse = rv_nijsse st ! k,
                           col_ecs = ecs_vals st ! k\<rparr>) [0..<n])
      else Inl ValueError)"

definition pipeline ::
  "forcing_data \<Rightarrow> ecs_row list \<Rightarrow> (string \<times> real option list) list \<Rightarrow>
   error + summary_row list" where
  "pipeline F t df = then_do (driver F t df) (ec_data t df)"

section \<open>Spatial weighted-mean reducer\<close>

text \<open>
  An xarray array is its ordered mapping \<open>sizes\<close> from dimension names to lengths
  together with its values, addressed by name: \<open>val a env\<close> is the entry at the index
  \<open>env d\<close> along each dimension \<open>d\<close>.  Arithmetic between two arrays broadcasts by
  dimension name, and fails when a shared dimension has two lengths.  A field is a data
  array with its \<open>lat\<close> coordinate.
\<close>

record xarr =
  sizes :: "(string \<times> nat) list"
  val :: "(string \<Rightarrow> nat) \<Rightarrow> npfloat"

definition dims :: "xarr \<Rightarrow> string list" where
  "dims a = map fst (sizes a)"

definition shape :: "xarr \<Rightarrow> nat list" where
  "shape a = map snd (sizes a)"

record field =
  da :: xarr
  lat :: xarr

definition dim_size :: "xarr \<Rightarrow> string \<Rightarrow> nat" where
  "dim_size a d = (case map_of (sizes a) d of None \<Rightarrow> 0 | Some n \<Rightarrow> n)"

text \<open>
  \<open>xr_binop\<close> is \<open>a * b\<close> or \<open>a / b\<close> between two arrays: the result has the
  dimensions of \<open>a\<close> followed by the further ones of \<open>b\<close>.  All operands in
  \<open>weighted_mean\<close> come from one dataset, so shared dimensions carry the same labels and
  no alignment takes place.  \<open>values_1d\<close> is \<open>.values\<close> of a one-dimensional array, and
  \<open>times_values\<close> the product of an array with such a bare vector, which NumPy broadcasts
  along the last axis.
\<close>

definition xr_binop ::
  "(npfloat \<Rightarrow> npfloat \<Rightarrow> npfloat) \<Rightarrow> xarr \<Rightarrow> xarr \<Rightarrow> error + xarr" where
  "xr_binop f a b =
     (if list_all (\<lambda>p. case map_of (sizes a) (fst p) of None \<Rightarrow> True | Some m \<Rightarrow> m = snd p)
           (sizes b)
      then Inr \<lparr>sizes = sizes a @ filter (\<lambda>p. fst p \<notin> set (dims a)) (sizes b),
                val = (\<lambda>env. f (val a env) (val b env))\<rparr>
      else Inl ValueError)"

definition ones_like :: "xarr \<Rightarrow> xarr" where
  "ones_like a = a\<lparr>val := (\<lambda>env. Fin 1)\<rparr>"

definition values_1d :: "xarr \<Rightarrow> npfloat list" where
  "values_1d a = map (\<lambda>k. val a (\<lambda>d. k)) [0..<hd (shape a)]"

definition times_values :: "xarr \<Rightarrow> npfloat list \<Rightarrow> error + xarr" where
  "times_values a vec =
     (if dims a \<noteq> [] \<and> (length vec = last (shape a) \<or> length vec = 1)
      then Inr (a\<lparr>val := (\<lambda>env. np_mul (val a env)
                     (vec ! (if length vec = 1 then 0 else env (last (dims a)))))\<rparr>)
      else Inl ValueError)"

fun cells :: "xarr \<Rightarrow> string list \<Rightarrow> (string \<Rightarrow> nat) \<Rightarrow> (string \<Rightarrow> nat) list" where
  "cells a [] env = [env]"
| "cells a (d # ds) env = concat (map (\<lambda>k. cells a ds (env(d := k))) [0..<dim_size a d])"

text \<open>
  \<open>a.sum(dim=D, skipna=True)\<close>: every name of \<open>D\<close> must be a dimension of \<open>a\<close>; missing
  entries count as zero, and the sum runs over all cells of the dimensions \<open>D\<close> at once.
\<close>

definition xr_sum :: "string list \<Rightarrow> xarr \<Rightarrow> error + xarr" where
  "xr_sum D a =
     (if list_all (\<lambda>d. d \<in> set (dims a)) D
      then Inr \<lparr>sizes = filter (\<lambda>p. fst p \<notin> set D) (sizes a),
                val = (\<lambda>env. np_sum (map (\<lambda>e. nan_to_zero (val a e)) (cells a D env)))\<rparr>
      else Inl ValueError)"

text \<open>
  \<^verbatim>\<open>
  def weighted_mean(da):
      if len(da.lat.shape)==2:
          weights=np.cos(np.deg2rad(da.lat))
      elif len(da.lat.shape)==1:
          weights = xr.ones_like(da)* (np.cos(np.deg2rad((da.lat))).values)
      # turn weights into nan where da is nan
      weights = weights*da/da
      if 'lat' in da.dims:
          wm = (da*weights).sum(dim=['lat'], skipna=True) / weights.sum(dim=['lat'], skipna=True)
      elif 'i' in da.dims:
          wm = (da*weights).sum(dim=['i','j'], skipna=True) / weights.sum(dim=['i','j'], skipna=True)
      elif 'nlat' in da.dims:
          wm = (da*weights).sum(dim=['nlat','nlon'], skipna=True) / weights.sum(dim=['nlat','nlon'], skipna=True)
      elif 'x' in da.dims:
          wm = (da*weights).sum(dim=['x','y'], skipna=True) / weights.sum(dim=['x','y'], skipna=True)
      return wm
  \<close>
  \<open>cos_weights\<close> is the first assignment to \<open>weights\<close>.  For a one-dimensional latitude
  the cosines are taken out of xarray by \<open>.values\<close>, so the product with
  \<open>xr.ones_like(da)\<close> broadcasts by position, along the last dimension of \<open>da\<close>
  (\<open>times_values\<close>); a length that fits neither way is a \<open>ValueError\<close>.  When the latitude
  has neither one nor two dimensions, \<open>weights\<close> is unbound in the next statement.
  \<open>masked_weights\<close> is \<open>weights*da/da\<close>, \<open>spatial_dims\<close> the chain of tests on
  \<open>da.dims\<close> with the dimensions each branch sums over, and the final \<open>return wm\<close> finds
  \<open>wm\<close> unbound when no test succeeded.
\<close>

definition cos_weights :: "field \<Rightarrow> error + xarr" where
  "cos_weights f =
     (if length (shape (lat f)) = 2 then
        Inr ((lat f)\<lparr>val := (\<lambda>env. np_cos (np_deg2rad (val (lat f) env)))\<rparr>)
      else if length (shape (lat f)) = 1 then
        times_values (ones_like (da f)) (map (\<lambda>v. np_cos (np_deg2rad v)) (values_1d (lat f)))
      else Inl (UnboundLocalError ''weights''))"

definition masked_weights :: "field \<Rightarrow> error + xarr" where
  "masked_weights f =
     then_do (cos_weights f) (\<lambda>weights.
     then_do (xr_binop np_mul weights (da f)) (\<lambda>wd.
       xr_binop np_div wd (da f)))"

definition spatial_dims :: "string list \<Rightarrow> string list option" where
  "spatial_dims ds =
     (if ''lat'' \<in> set ds then Some [''lat'']
      else if ''i'' \<in> set ds then Some [''i'', ''j'']
      else if ''nlat'' \<in> set ds then Some [''nlat'', ''nlon'']
      else if ''x'' \<in> set ds then Some [''x'', ''y'']
      else None)"

definition weighted_mean :: "field \<Rightarrow> error + xarr" where
  "weighted_mean f =
     then_do (masked_weights f) (\<lambda>weights.
       case spatial_dims (dims (da f)) of
         Some D \<Rightarrow>
           then_do (xr_binop np_mul (da f) weights) (\<lambda>p.
           then_do (xr_sum D p) (\<lambda>num.
           then_do (xr_sum D weights) (\<lambda>den.
             xr_binop np_div num den)))
       | None \<Rightarrow> Inl (UnboundLocalError ''wm''))"

section \<open>Example inputs\<close>

text \<open>Small concrete inputs on which the theorems below evaluate the model.\<close>

text \<open>
  An example of a rounding: towards minus infinity, to the multiples of \<open>1/1024\<close>.  Like the
  rounding of double precision it is monotone and leaves zero alone, and like the
  exponential of double precision the rounded exponential \<open>exp_grid\<close> is zero for all
  large negative arguments.
\<close>

definition rnd_grid :: "real \<Rightarrow> real" where
  "rnd_grid x = real_of_int \<lfloor>x * 1024\<rfloor> / 1024"

definition exp_grid :: "real \<Rightarrow> real" where
  "exp_grid x = rnd_grid (exp x)"

definition ex_F :: forcing_data where
  "ex_F = \<lparr>evolv2k_forcing = [0, - 1], gao_2008_forcing = [0, - 2],
           crowley_2000_forcing = [0, - 1, 0, 0, - 2], crowley_2008_forcing = [- 1, 0]\<rparr>"

definition ex_t :: "ecs_row list" where
  "ex_t = [\<lparr>model_name = ''M2'', generation = ''CMIP6'', ecs = 2\<rparr>,
           \<lparr>model_name = ''M1'', generation = ''CMIP5'', ecs = 3\<rparr>]"

definition ex_df :: "(string \<times> real option list) list" where
  "ex_df = [(''M1'', [Some 1, Some 2]), (''M2'', [Some 4, Some 3])]"

definition ex_ts :: "real option list" where
  "ex_ts = replicate 151 (Some 0) @ [Some 1, Some 0, Some 1, Some 1, Some (- 1)]"

definition ex_stored :: "real option list" where
  "ex_stored = replicate 151 (Some 0) @ [Some 1, Some 1, Some 1, Some 1, Some 1]"

definition ex4_t :: "ecs_row list" where
  "ex4_t = [\<lparr>model_name = ''M1'', generation = ''CMIP5'', ecs = 3\<rparr>,
            \<lparr>model_name = ''M2'', generation = ''CMIP6'', ecs = 2\<rparr>,
            \<lparr>model_name = ''M3'', generation = ''CMIP6'', ecs = 4\<rparr>,
            \<lparr>model_name = ''FGOALS-gl'', generation = ''CMIP5'', ecs = 5\<rparr>]"

definition ex4_df :: "(string \<times> real option list) list" where
  "ex4_df = [(''M1'', [Some 1, Some 2]), (''M2'', [Some 4, Some 3]), (''M3'', [Some 0, Some 1]),
             (''FGOALS-gl'', ex_ts)]"


definition zero_field :: field where
  "zero_field =
     \<lparr>da = \<lparr>sizes = [(''time'', 1), (''lat'', 2)], val = (\<lambda>env. Fin 0)\<rparr>,
      lat = \<lparr>sizes = [(''lat'', 2)], val = (\<lambda>env. Fin 0)\<rparr>\<rparr>"

definition missing_field :: field where
  "missing_field =
     \<lparr>da = \<lparr>sizes = [(''time'', 1), (''lat'', 2)], val = (\<lambda>env. NaN)\<rparr>,
      lat = \<lparr>sizes = [(''lat'', 2)], val = (\<lambda>env. Fin 0)\<rparr>\<rparr>"

definition cell_field :: field where
  "cell_field =
     \<lparr>da = \<lparr>sizes = [(''time'', 1), (''cell'', 2)], val = (\<lambda>env. Fin 1)\<rparr>,
      lat = \<lparr>sizes = [(''cell'', 2)], val = (\<lambda>env. Fin 0)\<rparr>\<rparr>"


text \<open>
  A stored series is a splice of the original one when it has the same length and keeps
  either everything after the first 1001 points or the first 151 points untouched.
\<close>

definition spliced :: "real option list \<Rightarrow> real option list \<Rightarrow> bool" where
  "spliced ts stored =
     (length stored = length ts \<and>
      (drop 1001 stored = drop 1001 ts \<or> take 151 stored = take 151 ts))"

definition stored_ok :: "(string \<times> real option list) list \<Rightarrow> driver_state \<Rightarrow> nat \<Rightarrow> bool" where
  "stored_ok df st i =
     (case df_rv st (fst (df ! i)) of None \<Rightarrow> False | Some stored \<Rightarrow> spliced (snd (df ! i)) stored)"

section \<open>Auxiliary facts\<close>

lemma then_do_Inr:
  "then_do r f = Inr v \<Longrightarrow> \<exists>u. r = Inr u \<and> f u = Inr v"
  by (cases r) (simp_all add: then_do_def)

lemma nanmean_Nil: "nanmean [] = NaN"
  by (simp add: nanmean_def np_sum_def)

lemma nanstd_Nil: "nanstd [] = NaN"
  by (simp add: nanstd_def)

lemma nan_strip_replicate: "nan_strip (replicate n (Some v)) = replicate n v"
  by (induction n) auto

lemma nan_strip_map_Some: "nan_strip (map Some xs) = xs"
  by (induction xs) auto

lemma nan_strip_append: "nan_strip (xs @ ys) = nan_strip xs @ nan_strip ys"
  by (induction xs rule: nan_strip.induct) auto

lemma arange_10: "arange 10 = [0, 1, 2, 3, 4, 5, 6, 7, 8, 9]"
  by (simp add: arange_def upt_rec)

lemma replicate_10: "replicate 10 c = [c, c, c, c, c, c, c, c, c, c]"
  by (simp add: numeral_eq_Suc)

lemma linregress_constant_block: "linregress_slope (arange 10) (replicate 10 c) = Inr (Fin 0)"
  by (simp add: linregress_slope_def arange_10 replicate_10 sxy_def sxx_def mean_def power2_eq_square)


section \<open>The forcing conversion\<close>

lemma get_forcing1_eq: "get_forcing1 saod = (-20.7) * (1 - exp (- saod))"
  by (simp add: get_forcing1_def get_forcing_fl_def)

text \<open>
  C2 (as stated in the specification): the conversion is increasing, that is
  \<open>x1 < x2\<close> implies \<open>get_forcing x1 < get_forcing x2\<close>.  The statement fails
  already between the optical depths 0 and 1: the forcing at 0 is 0 and the forcing at 1
  is negative.
\<close>

theorem get_forcing_increasing_counterexample:
  "\<not> (get_forcing1 0 < get_forcing1 1)"
proof -
  have "exp (- 1 :: real) < 1" by simp
  then have "get_forcing1 1 < 0" by (simp add: get_forcing1_eq)
  moreover have "get_forcing1 0 = 0" by (simp add: get_forcing1_eq)
  ultimately show ?thesis by simp
qed

text \<open>
  With rounding the conversion never increases: a larger optical depth never gives a
  larger forcing, whatever the rounding and the exponential routine are, as long as both
  are monotone and zero is a machine number.
\<close>

lemma get_forcing_fl_antimono:
  assumes r: "mono rnd" and z: "rnd 0 = 0" and e: "mono fexp" and x: "x1 \<le> x2"
  shows "get_forcing_fl rnd fexp x2 \<le> get_forcing_fl rnd fexp x1"
proof -
  have "rnd (- 20.7) \<le> rnd 0" by (rule monoD [OF r]) simp
  with z have c: "rnd (- 20.7) \<le> 0" by simp
  from x have "rnd ((- 1) * x2) \<le> rnd ((- 1) * x1)" by (intro monoD [OF r]) simp
  then have "fexp (rnd ((- 1) * x2)) \<le> fexp (rnd ((- 1) * x1))" by (rule monoD [OF e])
  then have "rnd (1 - fexp (rnd ((- 1) * x1))) \<le> rnd (1 - fexp (rnd ((- 1) * x2)))"
    by (intro monoD [OF r]) simp
  then have "rnd (- 20.7) * rnd (1 - fexp (rnd ((- 1) * x2))) \<le>
             rnd (- 20.7) * rnd (1 - fexp (rnd ((- 1) * x1)))"
    using c by (rule mult_left_mono_neg)
  then show ?thesis unfolding get_forcing_fl_def by (rule monoD [OF r])
qed

text \<open>
  It need not decrease strictly: once the rounded exponential is zero the result no
  longer changes.  Under the example rounding the optical depths 2000 and 3000 give the
  same forcing (in double precision \<open>exp(-2000)\<close> and \<open>exp(-3000)\<close> are zero as well).
\<close>

lemma rnd_grid_mono: "mono rnd_grid"
  by (rule monoI) (simp add: rnd_grid_def divide_right_mono floor_mono)

lemma exp_grid_mono: "mono exp_grid"
  by (rule monoI) (simp add: exp_grid_def monoD [OF rnd_grid_mono])

lemma exp_grid_zero:
  assumes "1024 \<le> x"
  shows "exp_grid (- x) = 0"
proof -
  have "1 + x \<le> exp x" by (rule exp_ge_add_one_self)
  with assms have big: "1024 < exp x" by linarith
  have "exp (- x) * 1024 = 1024 / exp x" by (simp add: exp_minus field_simps)
  also have "\<dots> < 1" using big by simp
  finally have lt: "exp (- x) * 1024 < 1" .
  have ge: "0 \<le> exp (- x) * 1024" by simp
  from ge lt have "\<lfloor>exp (- x) * 1024\<rfloor> = 0" by (simp add: floor_eq_iff)
  then show ?thesis by (simp add: exp_grid_def rnd_grid_def)
qed

lemma get_forcing_fl_plateau:
  "get_forcing_fl rnd_grid exp_grid 2000 = get_forcing_fl rnd_grid exp_grid 3000"
proof -
  have a: "rnd_grid ((- 1) * 2000) = - 2000" by (simp add: rnd_grid_def)
  have b: "rnd_grid ((- 1) * 3000) = - 3000" by (simp add: rnd_grid_def)
  have "exp_grid (- 2000) = 0" and "exp_grid (- 3000) = 0"
    by (rule exp_grid_zero, simp)+
  then show ?thesis by (simp only: get_forcing_fl_def a b)
qed

text \<open>
  C2 (amended): the conversion is decreasing, not increasing.  For every pair of optical
  depths \<open>x1 < x2\<close> the forcing computed at \<open>x2\<close> is at most the forcing computed at
  \<open>x1\<close>, for every monotone rounding that leaves zero alone and every monotone
  exponential routine (the two results can be equal); in exact arithmetic the forcing at
  \<open>x2\<close> is strictly below the forcing at \<open>x1\<close>.
\<close>

theorem get_forcing_decreasing:
  "(mono rnd \<and> rnd 0 = 0 \<and> mono fexp \<and> x1 < x2 \<longrightarrow>
      get_forcing_fl rnd fexp x2 \<le> get_forcing_fl rnd fexp x1) \<and>
   (x1 < x2 \<longrightarrow> get_forcing1 x2 < get_forcing1 x1)"
proof
  show "mono rnd \<and> rnd 0 = 0 \<and> mono fexp \<and> x1 < x2 \<longrightarrow>
      get_forcing_fl rnd fexp x2 \<le> get_forcing_fl rnd fexp x1"
    by (auto intro: get_forcing_fl_antimono)
next
  show "x1 < x2 \<longrightarrow> get_forcing1 x2 < get_forcing1 x1"
    by (simp add: get_forcing1_eq)
qed

theorem get_forcing_decreasing_witness:
  "mono rnd_grid \<and> rnd_grid 0 = 0 \<and> mono exp_grid \<and> (2000::real) < 3000 \<and>
   get_forcing_fl rnd_grid exp_grid 3000 \<le> get_forcing_fl rnd_grid exp_grid 2000 \<and>
   get_forcing1 3000 < get_forcing1 2000"
proof -
  have z: "rnd_grid 0 = 0" by (simp add: rnd_grid_def)
  have lt: "(2000::real) < 3000" by simp
  from get_forcing_decreasing [of rnd_grid exp_grid 2000 3000] rnd_grid_mono exp_grid_mono z lt
  show ?thesis by blast
qed

section \<open>The variability metrics\<close>

text \<open>The loop of \<open>compute_cox\<close> visits \<open>n - 55\<close> windows for a clean series of \<open>n\<close> points.\<close>

lemma cox_windows_count: "length (cox_windows x) = length x - 55"
  by (simp add: cox_windows_def)

text \<open>
  C4: for a clean series of \<open>n \<ge> 55\<close> points the specification has \<open>compute_cox\<close> form
  \<open>n - 54\<close> windows, the last one ending at the last point, so that exactly 55 clean
  points give one window.  The loop bound \<open>np.arange(0, len(x)-55)\<close> stops one window
  early: on a series of exactly 55 clean points the code forms no window at all, and the
  metric is not-a-number.
\<close>

theorem compute_cox_55_points_no_window:
  "length (nan_strip (replicate 55 (Some 0))) = 55 \<and>
   cox_windows (nan_strip (replicate 55 (Some 0))) = [] \<and>
   compute_cox (replicate 55 (Some 0)) = NaN"
  by (simp add: compute_cox_def cox_windows_def nanmean_Nil nan_strip_replicate)

text \<open>
  C5: the specification has \<open>compute_nijsse\<close> fit all \<open>floor (n / L)\<close> blocks, in
  particular all \<open>n / L\<close> blocks when \<open>L\<close> divides \<open>n\<close>.  The loop test
  \<open>i < len(x)-length\<close> leaves the last full block out when \<open>L\<close> divides \<open>n\<close>: on the
  20 clean points \<open>0, 1, \<dots>, 19\<close> with \<open>L = 10\<close> the code records the change of the
  first block only (slope 1 times 10), not of the two blocks.
\<close>

theorem compute_nijsse_20_points_one_block:
  "nijsse_loop (nan_strip (map Some [0, 1, 2, 3, 4, 5, 6, 7, 8, 9, 10, 11, 12, 13, 14, 15, 16, 17, 18, 19])) 10 0 [] = Inr [Fin 10]"
  by (simp add: nan_strip_map_Some linregress_slope_def arange_10 sxy_def sxx_def mean_def power2_eq_square)

text \<open>
  In general the loop of \<open>compute_nijsse\<close> records \<open>(n - 1) div L\<close> block changes for
  \<open>n\<close> clean points and a window length \<open>L \<ge> 1\<close>, which is one less than \<open>n div L\<close>
  exactly when \<open>L\<close> divides \<open>n\<close>.
\<close>

lemma arange_not_constant:
  assumes "2 \<le> L"
  shows "\<not> list_all (\<lambda>v. v = hd (arange L)) (arange L)"
proof -
  from assms have l: "1 < length (arange L)" by (simp add: arange_def)
  from assms have "arange L ! 0 = 0" and "arange L ! 1 = 1"
    by (simp_all add: arange_def)
  moreover from l have "hd (arange L) = arange L ! 0"
    by (simp add: hd_conv_nth arange_def)
  moreover from l have "arange L ! 1 \<in> set (arange L)" by simp
  ultimately show ?thesis by (simp add: list_all_iff) (metis zero_neq_one)
qed

lemma linregress_arange_ok:
  assumes "1 \<le> L" and "length w = L"
  shows "\<exists>s. linregress_slope (arange L) w = Inr s"
proof (cases "L = 1")
  case True
  with assms show ?thesis by (auto simp: linregress_slope_def arange_def)
next
  case False
  with assms have "2 \<le> L" by simp
  from arange_not_constant [OF this] assms show ?thesis
    by (auto simp: linregress_slope_def arange_def)
qed

lemma nijsse_loop_count:
  assumes "1 \<le> L"
  shows "\<exists>slopes. nijsse_loop x L i acc = Inr slopes \<and>
           length slopes = length acc + (length x - 1 - i) div L"
  using assms
proof (induction x L i acc rule: nijsse_loop.induct)
  case (1 x L i slopes)
  show ?case
  proof (cases "int i < int (length x) - int L")
    case False
    with "1.prems" have "length x - 1 - i < L" by arith
    with False show ?thesis by simp
  next
    case True
    then have len: "length (take L (drop i x)) = L" by simp
    from linregress_arange_ok [OF "1.prems" len] obtain s where
      s: "linregress_slope (arange L) (take L (drop i x)) = Inr s" by blast
    from "1.IH" [OF True s "1.prems"] obtain out where
      o: "nijsse_loop x L (i + L) (slopes @ [np_mul (Fin (real L)) s]) = Inr out" and
      n: "length out = length (slopes @ [np_mul (Fin (real L)) s]) + (length x - 1 - (i + L)) div L"
      by blast
    from True have ge: "L \<le> length x - 1 - i" by arith
    have "(length x - 1 - i) div L = Suc ((length x - 1 - (i + L)) div L)"
    proof -
      have "length x - 1 - i = (length x - 1 - (i + L)) + L" using ge by arith
      then have "(length x - 1 - i) div L = ((length x - 1 - (i + L)) + L) div L" by simp
      also have "\<dots> = (length x - 1 - (i + L)) div L + 1"
        using "1.prems" by (simp add: div_add_self2)
      finally show ?thesis by simp
    qed
    with o n True s show ?thesis by (simp del: nijsse_loop.simps add: nijsse_loop.simps [of x L i slopes])
  qed
qed

lemma nijsse_blocks_count:
  "1 \<le> L \<Longrightarrow> \<exists>slopes. nijsse_loop x L 0 [] = Inr slopes \<and> length slopes = (length x - 1) div L"
  using nijsse_loop_count [of L x 0 "[]"] by simp

lemma nijsse_blocks_count_multiple:
  assumes "1 \<le> L" and "1 \<le> k" and "length x = k * L"
  shows "\<exists>slopes. nijsse_loop x L 0 [] = Inr slopes \<and> length slopes = k - 1"
proof -
  from assms obtain j where j: "k = Suc j" by (cases k) auto
  from assms(1) have "(Suc j * L - 1) div L = j"
  proof -
    have "Suc j * L - 1 = j * L + (L - 1)" using assms(1) by simp
    moreover have "(j * L + (L - 1)) div L = j"
      using assms(1) by (subst div_mult_self3) auto
    ultimately show ?thesis by simp
  qed
  with nijsse_blocks_count [OF assms(1), of x] assms(3) j show ?thesis by simp
qed

text \<open>
  C10: a series with fewer than 55 clean points makes \<open>compute_cox\<close> return
  not-a-number, and a series with fewer clean points than the window length makes
  \<open>compute_nijsse\<close> return not-a-number; neither raises an error.
\<close>

theorem short_series_give_nan:
  "(length (nan_strip x) < 55 \<longrightarrow> compute_cox x = NaN) \<and>
   (length (nan_strip x) < L \<longrightarrow> compute_nijsse x L = Inr NaN)"
proof
  show "length (nan_strip x) < 55 \<longrightarrow> compute_cox x = NaN"
    by (simp add: compute_cox_def cox_windows_def nanmean_Nil)
next
  show "length (nan_strip x) < L \<longrightarrow> compute_nijsse x L = Inr NaN"
    by (simp add: compute_nijsse_def nanstd_Nil)
qed

theorem short_series_give_nan_witness:
  "length (nan_strip [Some 1, None, Some 2]) < 55 \<and> compute_cox [Some 1, None, Some 2] = NaN \<and>
   length (nan_strip [Some 1, None, Some 2]) < 10 \<and>
   compute_nijsse [Some 1, None, Some 2] 10 = Inr NaN"
  using short_series_give_nan [of "[Some 1, None, Some 2]" 10] by simp

section \<open>The detrending engine\<close>

lemma sum_list_sq_zero:
  "sum_list (map (\<lambda>x. (x - m)\<^sup>2) xs) = 0 \<Longrightarrow> list_all (\<lambda>v. v = (m::real)) xs"
proof (induction xs)
  case Nil
  then show ?case by simp
next
  case (Cons a xs)
  have nn: "0 \<le> sum_list (map (\<lambda>x. (x - m)\<^sup>2) xs)"
    by (rule sum_list_nonneg) auto
  from Cons.prems have s: "(a - m)\<^sup>2 + sum_list (map (\<lambda>x. (x - m)\<^sup>2) xs) = 0"
    by simp
  have a0: "(a - m)\<^sup>2 = 0" and r0: "sum_list (map (\<lambda>x. (x - m)\<^sup>2) xs) = 0"
    using s nn zero_le_power2 [of "a - m"] by linarith+
  from a0 have "a = m" by simp
  with Cons.IH [OF r0] show ?case by simp
qed

lemma sxx_zero_const: "sxx f = 0 \<Longrightarrow> list_all (\<lambda>v. v = hd f) f"
proof -
  assume "sxx f = 0"
  then have "list_all (\<lambda>v. v = mean f) f"
    unfolding sxx_def by (rule sum_list_sq_zero)
  then have a: "\<forall>v \<in> set f. v = mean f" by (simp add: list_all_iff)
  show ?thesis
  proof (cases "f = []")
    case True
    then show ?thesis by simp
  next
    case False
    then have "hd f \<in> set f" by simp
    with a have "hd f = mean f" by blast
    with a have "\<forall>v \<in> set f. v = hd f" by metis
    then show ?thesis by (simp add: list_all_iff)
  qed
qed

lemma mean_affine:
  "f \<noteq> [] \<Longrightarrow> mean (map (\<lambda>x. a * x + c) f) = a * mean f + c"
proof -
  assume ne: "f \<noteq> []"
  have "sum_list (map (\<lambda>x. a * x + c) f) = a * sum_list f + real (length f) * c"
    by (induction f) (auto simp: algebra_simps)
  with ne show ?thesis by (simp add: mean_def field_simps)
qed

lemma sxy_affine:
  "f \<noteq> [] \<Longrightarrow> sxy f (map (\<lambda>x. a * x + c) f) = a * sxx f"
proof -
  assume ne: "f \<noteq> []"
  have z: "zip f (map (\<lambda>x. a * x + c) f) = map (\<lambda>x. (x, a * x + c)) f"
    by (induction f) auto
  have "sxy f (map (\<lambda>x. a * x + c) f) =
        sum_list (map (\<lambda>x. (x - mean f) * ((a * x + c) - (a * mean f + c))) f)"
    by (simp add: sxy_def z mean_affine [OF ne] comp_def)
  also have "\<dots> = sum_list (map (\<lambda>x. a * (x - mean f)\<^sup>2) f)"
    by (rule arg_cong [where f = sum_list], rule map_cong)
       (auto simp: power2_eq_square algebra_simps)
  also have "\<dots> = a * sxx f"
    by (simp add: sxx_def sum_list_const_mult)
  finally show ?thesis .
qed

lemma zip_map_affine:
  "zip f (map (\<lambda>x. a * x + c) f) = map (\<lambda>x. (x, a * x + (c::real))) f"
  by (induction f) auto

lemma fit_exact_linear:
  assumes ne: "f \<noteq> []"
    and nc: "\<not> (list_all (\<lambda>v. v = hd f) f \<and> list_all (\<lambda>v. v \<noteq> 0) f)"
  shows "\<exists>b. then_do (add_constant f) (OLS_fit (map (\<lambda>x. Some (a * x + c)) f)) =
           Inr \<lparr>params = [Some c, Some b], resid = map (\<lambda>x. Some 0) f\<rparr>"
proof -
  let ?y = "map (\<lambda>x. Some (a * x + c)) f"
  have ac: "add_constant f = Inr [replicate (length f) 1, f]"
    using nc ne by (auto simp: add_constant_def)
  have yv: "map the ?y = map (\<lambda>x. a * x + c) f" by (simp add: comp_def)
  have ally: "list_all (\<lambda>v. v \<noteq> None) ?y" by (simp add: list_all_iff)
  show ?thesis
  proof (cases "sxx f = 0")
    case False
    have slope: "sxy f (map the ?y) / sxx f = a"
      using False by (simp only: yv sxy_affine [OF ne]) simp
    have "OLS_fit ?y [replicate (length f) 1, f] =
          Inr \<lparr>params = [Some c, Some a], resid = map (\<lambda>x. Some 0) f\<rparr>"
      unfolding OLS_fit_def Let_def using False ally slope
      by (simp add: yv mean_affine [OF ne] zip_map_affine comp_def)
    with ac show ?thesis by (simp add: then_do_def)
  next
    case True
    from sxx_zero_const [OF True] have c1: "list_all (\<lambda>v. v = hd f) f" .
    with nc have "\<not> list_all (\<lambda>v. v \<noteq> 0) f" by simp
    then obtain z where "z \<in> set f" and "z = 0" by (auto simp: list_all_iff)
    with c1 have h0: "hd f = 0" by (auto simp: list_all_iff)
    with c1 have all0: "\<forall>v \<in> set f. v = 0" by (simp add: list_all_iff)
    have m0: "mean f = 0"
    proof -
      have "sum_list f = 0" using all0 by (induction f) auto
      then show ?thesis by (simp add: mean_def)
    qed
    have my: "mean (map (\<lambda>x. a * x + c) f) = c"
      using mean_affine [OF ne, of a c] m0 by simp
    have "OLS_fit ?y [replicate (length f) 1, f] =
          Inr \<lparr>params = [Some c, Some 0], resid = map (\<lambda>x. Some 0) f\<rparr>"
      unfolding OLS_fit_def Let_def using True ally h0 all0
      by (simp add: yv my zip_map_affine comp_def)
    with ac show ?thesis by (simp add: then_do_def)
  qed
qed

text \<open>
  C8 (as stated in the specification): for every forcing series \<open>f\<close> and constants \<open>a\<close>
  and \<open>c\<close>, detrending \<open>a f + c\<close> against \<open>f\<close> gives the constant series \<open>c\<close>.  The
  statement fails for a forcing that is a non-zero constant: \<open>sm.add_constant\<close> then adds
  no column of ones, the single coefficient is fitted to the forcing itself, and
  \<open>reg.params[0]\<close> is that coefficient, not an intercept.  With \<open>f = [2, 2, 2]\<close>,
  \<open>a = 1\<close> and \<open>c = 5\<close> the result is the constant \<open>7/2\<close>.
\<close>

theorem regress_out_constant_forcing_counterexample:
  "regress_out (map (\<lambda>x. Some (1 * x + 5)) [2, 2, 2]) [2, 2, 2] = Inr [Some (7 / 2), Some (7 / 2), Some (7 / 2)] \<and>
   regress_out (map (\<lambda>x. Some (1 * x + 5)) [2, 2, 2]) [2, 2, 2] \<noteq> Inr [Some 5, Some 5, Some 5]"
  by (simp add: regress_out_def add_constant_def OLS_fit_def then_do_def adjusted_def)

text \<open>
  C8 (amended): for every non-empty forcing series \<open>f\<close> that is not a non-zero
  constant, and constants \<open>a\<close> and \<open>c\<close>, the regression of the series \<open>a f + c\<close> on
  \<open>f\<close> succeeds, and residuals plus fitted intercept are the constant series \<open>c\<close>, of
  the length of \<open>f\<close> (in exact arithmetic).
\<close>

theorem regress_out_exact_linear:
  assumes "f \<noteq> []"
    and "\<not> (list_all (\<lambda>v. v = hd f) f \<and> list_all (\<lambda>v. v \<noteq> 0) f)"
  shows "regress_out (map (\<lambda>x. Some (a * x + c)) f) f = Inr (replicate (length f) (Some c))"
proof -
  from fit_exact_linear [OF assms, of a c] obtain b where
    "then_do (add_constant f) (OLS_fit (map (\<lambda>x. Some (a * x + c)) f)) =
       Inr \<lparr>params = [Some c, Some b], resid = map (\<lambda>x. Some 0) f\<rparr>" by blast
  then obtain X where
    "add_constant f = Inr X" and
    "OLS_fit (map (\<lambda>x. Some (a * x + c)) f) X =
       Inr \<lparr>params = [Some c, Some b], resid = map (\<lambda>x. Some 0) f\<rparr>"
    by (blast dest: then_do_Inr)
  then show ?thesis
    by (simp add: regress_out_def then_do_def adjusted_def comp_def map_replicate_const)
qed

theorem regress_out_exact_linear_witness:
  "[0, 1 :: real] \<noteq> [] \<and>
   \<not> (list_all (\<lambda>v. v = hd [0, 1 :: real]) [0, 1] \<and> list_all (\<lambda>v. v \<noteq> 0) [0, 1 :: real]) \<and>
   regress_out [Some 3, Some 5] [0, 1] = Inr [Some 3, Some 3]"
  using regress_out_exact_linear [of "[0, 1]" 2 3] by (simp add: numeral_2_eq_2)

text \<open>On the same input \<open>remove_volcano\<close> returns the residuals, which are all zero.\<close>

lemma remove_volcano_exact_linear:
  assumes "f \<noteq> []"
    and "\<not> (list_all (\<lambda>v. v = hd f) f \<and> list_all (\<lambda>v. v \<noteq> 0) f)"
  shows "remove_volcano (map (\<lambda>x. Some (a * x + c)) f) f = Inr (replicate (length f) (Some 0))"
proof -
  from fit_exact_linear [OF assms, of a c] obtain b where
    "then_do (add_constant f) (OLS_fit (map (\<lambda>x. Some (a * x + c)) f)) =
       Inr \<lparr>params = [Some c, Some b], resid = map (\<lambda>x. Some 0) f\<rparr>" by blast
  then obtain X where
    "add_constant f = Inr X" and
    "OLS_fit (map (\<lambda>x. Some (a * x + c)) f) X =
       Inr \<lparr>params = [Some c, Some b], resid = map (\<lambda>x. Some 0) f\<rparr>"
    by (blast dest: then_do_Inr)
  then show ?thesis
    by (simp add: remove_volcano_def then_do_def map_replicate_const)
qed

section \<open>The driver\<close>

lemma OLS_fit_length:
  assumes "OLS_fit y X = Inr reg"
  shows "length (resid reg) = length y"
proof (cases "list_all (\<lambda>c. length c = length y) X")
  case False
  with assms show ?thesis by (simp add: OLS_fit_def)
next
  case len: True
  show ?thesis
  proof (cases "list_all (\<lambda>v. v \<noteq> None) y")
    case False
    with assms len have "reg = \<lparr>params = map (\<lambda>_. None) X, resid = map (\<lambda>_. None) y\<rparr>"
      by (simp add: OLS_fit_def)
    then show ?thesis by simp
  next
    case True
    with assms len show ?thesis
      by (auto simp: OLS_fit_def Let_def split: list.splits)
  qed
qed

lemma regress_out_length:
  assumes "regress_out y forcing = Inr adj"
  shows "length adj = length y"
proof -
  from assms obtain X where "then_do (OLS_fit y X) (\<lambda>reg. Inr (adjusted reg)) = Inr adj"
    unfolding regress_out_def by (blast dest: then_do_Inr)
  then obtain reg where fit: "OLS_fit y X = Inr reg" and adj: "adj = adjusted reg"
    by (auto dest!: then_do_Inr)
  from OLS_fit_length [OF fit] adj show ?thesis by (simp add: adjusted_def)
qed

lemma record_model_df_rv:
  assumes "record_model t name ts metric_arg stored st = Inr st'"
  shows "df_rv st' = (df_rv st)(name \<mapsto> stored)"
proof -
  from assms obtain e on rn where
    "st' = st\<lparr>ecs_vals := ecs_vals st @ [e],
              original_cox := original_cox st @ [compute_cox ts],
              rv_cox := rv_cox st @ [compute_cox metric_arg],
              original_nijsse := original_nijsse st @ [on],
              rv_nijsse := rv_nijsse st @ [rn],
              df_rv := (df_rv st)(name \<mapsto> stored)\<rparr>"
    unfolding record_model_def by (auto dest!: then_do_Inr)
  then show ?thesis by simp
qed

lemma past1000_branch_df_rv:
  assumes "past1000_branch forcing t name ts st = Inr st'"
  shows "\<exists>stored. df_rv st' = (df_rv st)(name \<mapsto> stored) \<and> spliced ts stored"
proof -
  from assms obtain adj where
    r: "regress_out (take 1001 ts) forcing = Inr adj" and
    m: "record_model t name ts (adj @ drop 1001 ts) (adj @ drop 1001 ts) st = Inr st'"
    unfolding past1000_branch_def Let_def by (auto dest!: then_do_Inr)
  have l: "length adj = min (length ts) 1001"
    using regress_out_length [OF r] by simp
  have "drop 1001 (adj @ drop 1001 ts) = drop 1001 ts"
  proof (cases "1001 \<le> length ts")
    case True
    with l show ?thesis by simp
  next
    case False
    with l show ?thesis by simp
  qed
  with l have "spliced ts (adj @ drop 1001 ts)" by (simp add: spliced_def)
  with record_model_df_rv [OF m] show ?thesis by blast
qed

lemma crowley_00_branch_df_rv:
  assumes "crowley_00_branch forcing t name ts st = Inr st'"
  shows "\<exists>stored. df_rv st' = (df_rv st)(name \<mapsto> stored) \<and> spliced ts stored"
proof -
  from assms obtain adj where
    r: "regress_out (drop 151 ts) forcing = Inr adj" and
    m: "record_model t name ts adj (take 151 ts @ adj) st = Inr st'"
    unfolding crowley_00_branch_def by (auto dest!: then_do_Inr)
  have l: "length adj = length ts - 151"
    using regress_out_length [OF r] by simp
  have "take 151 (take 151 ts @ adj) = take 151 ts"
  proof (cases "151 \<le> length ts")
    case True
    then show ?thesis by simp
  next
    case False
    with l show ?thesis by simp
  qed
  moreover have "length (take 151 ts @ adj) = length ts"
    using l by simp
  ultimately have "spliced ts (take 151 ts @ adj)" by (simp only: spliced_def) simp
  with record_model_df_rv [OF m] show ?thesis by blast
qed

text \<open>
  In the branch for \<open>crowley_00\<close> the adjusted metrics are computed on the regressed
  tail, and the stored series has the first 151 points of the original in front of it.
\<close>

lemma crowley_00_branch_metric_arg:
  assumes "crowley_00_branch forcing t name ts st = Inr st'"
  shows "\<exists>adj. regress_out (drop 151 ts) forcing = Inr adj \<and>
           rv_cox st' = rv_cox st @ [compute_cox adj] \<and>
           compute_nijsse adj 10 = Inr (last (rv_nijsse st')) \<and>
           df_rv st' name = Some (take 151 ts @ adj)"
proof -
  from assms obtain adj where
    r: "regress_out (drop 151 ts) forcing = Inr adj" and
    m: "record_model t name ts adj (take 151 ts @ adj) st = Inr st'"
    unfolding crowley_00_branch_def by (auto dest!: then_do_Inr)
  from m obtain e orig rn where
    rn: "compute_nijsse adj 10 = Inr rn" and
    "st' = st\<lparr>ecs_vals := ecs_vals st @ [e],
              original_cox := original_cox st @ [compute_cox ts],
              rv_cox := rv_cox st @ [compute_cox adj],
              original_nijsse := original_nijsse st @ [orig],
              rv_nijsse := rv_nijsse st @ [rn],
              df_rv := (df_rv st)(name \<mapsto> take 151 ts @ adj)\<rparr>"
    unfolding record_model_def by (auto dest!: then_do_Inr)
  with r show ?thesis by simp
qed

lemma forcings_known:
  "i < length forcings \<Longrightarrow>
   forcings ! i = ''gao'' \<or> forcings ! i = ''crowley_00'' \<or>
   forcings ! i = ''crowley_08'' \<or> forcings ! i = ''evolv2k''"
proof -
  assume "i < length forcings"
  then have "forcings ! i \<in> set forcings" by simp
  then show ?thesis unfolding forcings_def by auto
qed

lemma driver_step_df_rv:
  assumes "driver_step F t df i st = Inr st'"
  shows "\<exists>stored. df_rv st' = (df_rv st)(fst (df ! i) \<mapsto> stored) \<and> spliced (snd (df ! i)) stored"
proof (cases "fst (df ! i) = ''HadCM3''")
  case True
  with assms show ?thesis
    by (auto simp: driver_step_def Let_def dest: past1000_branch_df_rv)
next
  case False
  with assms have i: "i < length forcings"
    by (auto simp: driver_step_def Let_def split: if_splits)
  from forcings_known [OF i] False assms show ?thesis
    by (auto simp: driver_step_def Let_def i split: if_splits
        dest: past1000_branch_df_rv crowley_00_branch_df_rv)
qed

lemma driver_loop_stored:
  assumes "driver_loop F t df is st0 = Inr st"
    and "distinct (map fst df)"
    and "\<forall>i \<in> set is. i < length df"
    and "k < length df"
    and "k \<in> set is \<or> stored_ok df st0 k"
  shows "stored_ok df st k"
  using assms
proof (induction "is" arbitrary: st0)
  case Nil
  then show ?case by simp
next
  case (Cons j js)
  from Cons.prems(1) obtain st1 where
    s: "driver_step F t df j st0 = Inr st1" and l: "driver_loop F t df js st1 = Inr st"
    by (auto dest!: then_do_Inr)
  from driver_step_df_rv [OF s] obtain stored where
    u: "df_rv st1 = (df_rv st0)(fst (df ! j) \<mapsto> stored)" and
    n: "spliced (snd (df ! j)) stored" by blast
  have j: "j < length df" using Cons.prems(3) by simp
  have "k \<in> set js \<or> stored_ok df st1 k"
  proof (cases "k \<in> set js")
    case True
    then show ?thesis by simp
  next
    case False
    with Cons.prems(5) have c: "k = j \<or> stored_ok df st0 k" by auto
    have "stored_ok df st1 k"
    proof (cases "fst (df ! k) = fst (df ! j)")
      case True
      with Cons.prems(2) Cons.prems(4) j have "k = j"
        by (auto simp: distinct_conv_nth)
      with u n show ?thesis by (simp add: stored_ok_def)
    next
      case False
      with c have "stored_ok df st0 k" by auto
      with False u show ?thesis by (simp add: stored_ok_def)
    qed
    then show ?thesis by simp
  qed
  with Cons.IH [OF l Cons.prems(2)] Cons.prems(3) Cons.prems(4) show ?case by simp
qed

lemma ex_driver: "\<exists>st. driver ex_F ex_t ex_df = Inr st"
  by (simp add: driver_def ex_F_def ex_t_def ex_df_def upt_rec driver_step_def forcings_def
      past1000_branch_def regress_out_def add_constant_def OLS_fit_def then_do_def
      record_model_def ecs_lookup_def compute_nijsse_def init_state_def
      Let_def sxx_def sxy_def mean_def adjusted_def power2_eq_square)

text \<open>
  C9: for every model, the adjusted series that the driver stores in \<open>df_rv\<close> under the
  model's name has exactly the length of the model's original series, and it is a splice:
  the points after the regressed window of the first 1001, or the 151 points before the
  regressed tail, are those of the original.  (Column names of a table read by pandas are
  distinct.)
\<close>

theorem adjusted_series_same_length:
  assumes "driver F t df = Inr st"
    and "distinct (map fst df)"
    and "(name, ts) \<in> set df"
  shows "\<exists>stored. df_rv st name = Some stored \<and> length stored = length ts \<and>
           (drop 1001 stored = drop 1001 ts \<or> take 151 stored = take 151 ts)"
proof -
  from assms(3) obtain k where k: "k < length df" and d: "df ! k = (name, ts)"
    by (auto simp: in_set_conv_nth)
  have "stored_ok df st k"
    using driver_loop_stored [of F t df "[0..<length df]" init_state st k] assms(1,2) k
    by (simp add: driver_def)
  with d show ?thesis by (auto simp: stored_ok_def spliced_def split: option.splits)
qed

theorem adjusted_series_same_length_witness:
  "\<exists>st. driver ex_F ex_t ex_df = Inr st \<and> distinct (map fst ex_df) \<and>
     (''M2'', [Some 4, Some 3]) \<in> set ex_df \<and>
     (\<exists>stored. df_rv st ''M2'' = Some stored \<and>
        length stored = length [Some 4, Some 3 :: real option])"
proof -
  from ex_driver obtain st where s: "driver ex_F ex_t ex_df = Inr st" by blast
  have d: "distinct (map fst ex_df)" by (simp add: ex_df_def)
  have m: "(''M2'', [Some 4, Some 3]) \<in> set ex_df" by (simp add: ex_df_def)
  from adjusted_series_same_length [OF s d m] s d m show ?thesis by blast
qed

text \<open>
  The \<open>ecs\<close> value is found by name, wherever the row stands in the table, and a name
  that is not in the table is an error.
\<close>

lemma ecs_lookup_by_name:
  assumes "distinct (map model_name t)" and "r \<in> set t"
  shows "ecs_lookup t (model_name r) = Inr (ecs r)"
  using assms
proof (induction t)
  case Nil
  then show ?case by simp
next
  case (Cons a t)
  show ?case
  proof (cases "model_name a = model_name r")
    case True
    have "r = a"
    proof (rule ccontr)
      assume "r \<noteq> a"
      with Cons.prems(2) have "r \<in> set t" by simp
      then have "model_name r \<in> set (map model_name t)" by simp
      with True Cons.prems(1) show False by simp
    qed
    with True show ?thesis by (simp add: ecs_lookup_def)
  next
    case False
    with Cons.prems(2) have "r \<in> set t" by auto
    with Cons.IH Cons.prems(1) have "ecs_lookup t (model_name r) = Inr (ecs r)" by simp
    with False show ?thesis by (simp add: ecs_lookup_def)
  qed
qed

lemma ecs_lookup_absent:
  "k \<notin> set (map model_name t) \<Longrightarrow> ecs_lookup t k = Inl IndexError"
proof -
  assume "k \<notin> set (map model_name t)"
  then have "filter (\<lambda>r. model_name r = k) t = []"
    by (auto simp: filter_empty_conv)
  then show ?thesis by (simp add: ecs_lookup_def)
qed

text \<open>
  C1: the specification has both the \<open>ecs\<close> value and the \<open>generation\<close> label of a
  summary row come from the row of the ECS table that carries the model's name.  The code
  looks \<open>ecs\<close> up by name, but takes the column \<open>generation\<close> of the table as it
  stands, row \<open>k\<close> for the \<open>k\<close>-th model.  With the models \<open>M1\<close>, \<open>M2\<close> and the table
  rows in the order \<open>M2\<close> (CMIP6, 2), \<open>M1\<close> (CMIP5, 3) the summary row of \<open>M1\<close> has
  the \<open>ecs\<close> of \<open>M1\<close> and the generation of \<open>M2\<close>.
\<close>

theorem generation_paired_by_position:
  "map_sum id (map (\<lambda>r. (col_model r, col_generation r, col_ecs r))) (pipeline ex_F ex_t ex_df) =
     Inr [(''M1'', ''CMIP6'', 3), (''M2'', ''CMIP5'', 2)]"
  by (simp add: pipeline_def ec_data_def driver_def ex_F_def ex_t_def ex_df_def upt_rec driver_step_def forcings_def
      past1000_branch_def regress_out_def add_constant_def OLS_fit_def then_do_def
      record_model_def ecs_lookup_def compute_nijsse_def init_state_def
      Let_def sxx_def sxy_def mean_def adjusted_def power2_eq_square)

lemma ex_regress: "regress_out (drop 151 ex_ts) [0, - 1, 0, 0, - 2] = Inr [Some 1, Some 1, Some 1, Some 1, Some 1]"
  by (simp add: ex_ts_def regress_out_def add_constant_def OLS_fit_def then_do_def
      Let_def sxx_def sxy_def mean_def adjusted_def power2_eq_square)

lemma ex_nijsse_ts: "compute_nijsse ex_ts 10 = Inr (Fin 0)"
  by (simp add: ex_ts_def compute_nijsse_def nan_strip_append nan_strip_replicate
      linregress_constant_block nanstd_def np_std_def mean_def)

lemma ex_nijsse_stored: "compute_nijsse ex_stored 10 = Inr (Fin 0)"
  by (simp add: ex_stored_def compute_nijsse_def nan_strip_append nan_strip_replicate
      linregress_constant_block nanstd_def np_std_def mean_def)

lemma ex_nijsse_tail: "compute_nijsse [Some 1, Some 1, Some 1, Some 1, Some 1] 10 = Inr NaN"
  by (simp add: compute_nijsse_def nanstd_def)

text \<open>
  C3: the specification has the adjusted metrics of every model computed on the series
  that is stored in \<open>df_rv\<close>.  In the branch for \<open>crowley_00\<close> the metrics are computed
  on the regressed tail alone, without the first 151 points that the stored series keeps.
  For the fourth model of \<open>ex4_df\<close> (156 points, forcing \<open>crowley_00\<close>) the stored
  series is \<open>ex_stored\<close>, whose trend metric is 0, while the recorded \<open>rv_nijsse\<close> is
  not-a-number, the metric of the five points of the tail.
\<close>

theorem crowley_00_metric_not_on_stored_series:
  "\<exists>st. driver ex_F ex4_t ex4_df = Inr st \<and>
        df_rv st ''FGOALS-gl'' = Some ex_stored \<and>
        compute_nijsse ex_stored 10 = Inr (Fin 0) \<and>
        rv_nijsse st ! 3 = NaN"
proof -
  have s3: "driver_step ex_F ex4_t ex4_df 3 st =
      Inr (st\<lparr>ecs_vals := ecs_vals st @ [5],
               original_cox := original_cox st @ [compute_cox ex_ts],
               rv_cox := rv_cox st @ [compute_cox [Some 1, Some 1, Some 1, Some 1, Some 1]],
               original_nijsse := original_nijsse st @ [Fin 0],
               rv_nijsse := rv_nijsse st @ [NaN],
               df_rv := (df_rv st)(''FGOALS-gl'' \<mapsto> ex_stored)\<rparr>)" for st
    by (simp add: driver_step_def ex4_df_def forcings_def crowley_00_branch_def ex_F_def
        ex_regress record_model_def then_do_def ecs_lookup_def ex4_t_def ex_nijsse_ts
        ex_nijsse_tail) (simp add: ex_ts_def ex_stored_def)
  have s012: "\<exists>st. driver_loop ex_F ex4_t ex4_df [0, 1, 2] init_state = Inr st \<and>
      length (rv_nijsse st) = 3"
    by (simp add: ex_F_def ex4_t_def ex4_df_def driver_step_def forcings_def
      past1000_branch_def regress_out_def add_constant_def OLS_fit_def then_do_def
      record_model_def ecs_lookup_def compute_nijsse_def init_state_def
      Let_def sxx_def sxy_def mean_def adjusted_def power2_eq_square)
  then obtain st2 where a: "driver_loop ex_F ex4_t ex4_df [0, 1, 2] init_state = Inr st2"
    and b: "length (rv_nijsse st2) = 3" by blast
  have loop_app: "driver_loop F t df (xs @ ys) st0 = then_do (driver_loop F t df xs st0) (driver_loop F t df ys)"
    for F t df xs ys st0
    by (induction xs arbitrary: st0) (auto simp: then_do_def split: sum.splits)
  have u: "[0..<4] = [0, 1, 2] @ [3::nat]"
    by (simp add: numeral_eq_Suc upt_rec)
  have "length ex4_df = 4" by (simp add: ex4_df_def)
  then have "driver ex_F ex4_t ex4_df = driver_loop ex_F ex4_t ex4_df ([0, 1, 2] @ [3]) init_state"
    by (simp only: driver_def u)
  also have "\<dots> = then_do (Inr st2) (driver_loop ex_F ex4_t ex4_df [3])"
    by (simp only: loop_app a)
  also have "\<dots> = driver_step ex_F ex4_t ex4_df 3 st2"
    by (simp add: then_do_def split: sum.splits)
  finally have "driver ex_F ex4_t ex4_df = driver_step ex_F ex4_t ex4_df 3 st2" .
  with s3 [of st2] b ex_nijsse_stored show ?thesis by (simp add: nth_append)
qed

section \<open>The spatial reducer\<close>














text \<open>
  The statement \<open>weights*da/da\<close> also removes every cell whose value is exactly zero
  (\<open>0 / 0\<close>), so a field that is zero everywhere has the mean not-a-number.
\<close>

lemma weighted_mean_zero_field:
  "map_sum id (\<lambda>r. val r (\<lambda>d. 0)) (weighted_mean zero_field) = Inr NaN"
  by (simp add: zero_field_def weighted_mean_def masked_weights_def cos_weights_def
      times_values_def ones_like_def values_1d_def xr_binop_def xr_sum_def spatial_dims_def
      then_do_def dim_size_def np_sum_def nan_to_zero_def upt_rec dims_def shape_def)

text \<open>
  A time step at which every cell is missing has the normalising sum zero, and its mean
  is not-a-number.
\<close>

lemma weighted_mean_missing_field:
  "map_sum id (\<lambda>r. val r (\<lambda>d. 0)) (weighted_mean missing_field) = Inr NaN"
  by (simp add: missing_field_def weighted_mean_def masked_weights_def cos_weights_def
      times_values_def ones_like_def values_1d_def xr_binop_def xr_sum_def spatial_dims_def
      then_do_def dim_size_def np_sum_def nan_to_zero_def upt_rec dims_def shape_def)






lemma cos_weights_errors:
  "cos_weights f = Inl e \<Longrightarrow> e = UnboundLocalError ''weights'' \<or> e = ValueError"
  by (auto simp: cos_weights_def times_values_def split: if_splits)

lemma xr_binop_errors: "xr_binop g a b = Inl e \<Longrightarrow> e = ValueError"
  by (auto simp: xr_binop_def split: if_splits)

lemma masked_weights_errors:
  assumes "masked_weights f = Inl e"
  shows "e = UnboundLocalError ''weights'' \<or> e = ValueError"
proof (cases "cos_weights f")
  case (Inl e')
  with assms have "e = e'" by (simp add: masked_weights_def then_do_def)
  with Inl show ?thesis by (blast dest: cos_weights_errors)
next
  case (Inr w)
  show ?thesis
  proof (cases "xr_binop np_mul w (da f)")
    case (Inl e')
    with assms Inr have "e = e'" by (simp add: masked_weights_def then_do_def)
    with Inl show ?thesis by (blast dest: xr_binop_errors)
  next
    case wd: (Inr wd)
    with assms Inr have "xr_binop np_div wd (da f) = Inl e"
      by (simp add: masked_weights_def then_do_def)
    then show ?thesis by (blast dest: xr_binop_errors)
  qed
qed

text \<open>
  C7 (as stated in the specification): a field in none of the four conventions makes
  \<open>weighted_mean\<close> raise an explicit unsupported-format error.  On a field with the
  dimensions \<open>time\<close> and \<open>cell\<close> the code fails at \<open>return wm\<close>, with the name \<open>wm\<close>
  unbound.
\<close>

theorem weighted_mean_no_convention_counterexample:
  "weighted_mean cell_field = Inl (UnboundLocalError ''wm'') \<and>
   weighted_mean cell_field \<noteq> Inl UnsupportedFormat"
  by (simp add: cell_field_def weighted_mean_def masked_weights_def cos_weights_def
      times_values_def ones_like_def values_1d_def xr_binop_def spatial_dims_def
      then_do_def dims_def shape_def)

text \<open>
  C7 (amended): when the dimensions of the field match none of the four conventions,
  \<open>weighted_mean\<close> returns no value.  The call fails with an error that no statement
  raises on purpose: the unbound name \<open>wm\<close> at the return statement whenever the masked
  weights could be formed, and otherwise the failure of forming them (the unbound name
  \<open>weights\<close>, or a \<open>ValueError\<close> of the broadcast).
\<close>

theorem weighted_mean_no_convention:
  assumes "spatial_dims (dims (da f)) = None"
  shows "(case masked_weights f of
            Inr w \<Rightarrow> weighted_mean f = Inl (UnboundLocalError ''wm'')
          | Inl e \<Rightarrow> weighted_mean f = Inl e \<and>
                     (e = UnboundLocalError ''weights'' \<or> e = ValueError))"
proof (cases "masked_weights f")
  case (Inl e)
  with masked_weights_errors [OF Inl] show ?thesis
    by (simp add: weighted_mean_def then_do_def)
next
  case (Inr w)
  with assms show ?thesis by (simp add: weighted_mean_def then_do_def)
qed

theorem weighted_mean_no_convention_witness:
  "spatial_dims (dims (da cell_field)) = None \<and>
   (\<exists>w. masked_weights cell_field = Inr w) \<and>
   weighted_mean cell_field = Inl (UnboundLocalError ''wm'')"
proof -
  have n: "spatial_dims (dims (da cell_field)) = None"
    by (simp add: cell_field_def spatial_dims_def dims_def)
  have m: "\<exists>w. masked_weights cell_field = Inr w"
    by (simp add: cell_field_def masked_weights_def cos_weights_def times_values_def
        ones_like_def values_1d_def xr_binop_def then_do_def dims_def shape_def)
  from weighted_mean_no_convention [OF n] m n show ?thesis by auto
qed

end
